theory Spec2Isabelle
  imports Main
begin

section \<open>Values, exceptions and the observable world\<close>

text \<open>
  The two modules \<^verbatim>\<open>binary_sensor.py\<close> and \<^verbatim>\<open>climate.py\<close> poll a gateway object, log,
  sleep and raise. Exceptions are values of \<open>exn\<close>; a computation that may raise returns
  \<open>exn + 'a\<close>, with \<open>Inl\<close> for the raised exception.
\<close>

datatype exn =
    TimeoutError
  | NameError string
  | AttributeError string
  | GatewayError string

text \<open>
  A device object as the update functions read it: \<^verbatim>\<open>device.unique_id\<close> and
  \<^verbatim>\<open>device.available\<close>. The gateway hands devices out in a dict; its insertion order is
  the order of \<^verbatim>\<open>devices.values()\<close>, so the dict is an association list.
\<close>

record device =
  unique_id :: string
  available :: bool

type_synonym devices = "(string \<times> device) list"

text \<open>
  One round of \<^verbatim>\<open>await gateway.poll_status()\<close> followed by
  \<^verbatim>\<open>gateway.get_..._devices()\<close>: the gateway needs \<open>latency\<close> time units and then either
  raises or hands out its device dict. The gateway is an external object; its behaviour is
  given by what its n-th poll does.
\<close>

datatype reply = Raises exn | Replies devices

record poll =
  latency :: nat
  reply :: reply

type_synonym gateway = "nat \<Rightarrow> poll"

text \<open>The log records of both modules, one constructor per logging call of the source.\<close>

datatype level = Debug | Warning | Error

datatype msg =
    DevicesFetched devices
  | DeviceData string
  | DeviceNotAvailable string
  | NoAvailableDevices
  | TimedOutOnAttempt nat
  | ErrorOnAttempt nat exn
  | MaxRetriesReached
  | ErrorFetchingData exn

datatype pyval = PyNone | PyNum int | PyStr string | PyObj string

datatype event =
    Poll
  | Sleep nat
  | Log level msg
  | Command string pyval pyval
  | RequestRefresh

text \<open>
  The world the code acts on: how many polls the gateway has served, and the events so
  far, oldest first.
\<close>

record world =
  polls :: nat
  trace :: "event list"

definition log :: "level \<Rightarrow> msg \<Rightarrow> world \<Rightarrow> world" where
  "log l m w = w\<lparr>trace := trace w @ [Log l m]\<rparr>"

text \<open>
  \<^verbatim>\<open>async with async_timeout.timeout(t):\<close> around the poll: the timeout fires when \<open>t\<close>
  time units have passed. A gateway that needs \<open>t\<close> time units or more has not answered
  by then: the body is cancelled and a timeout error is raised in its place.
\<close>

definition with_timeout :: "nat \<Rightarrow> poll \<Rightarrow> reply" where
  "with_timeout t p = (if t \<le> latency p then Raises TimeoutError else reply p)"

definition poll_status :: "nat \<Rightarrow> gateway \<Rightarrow> world \<Rightarrow> reply \<times> world" where
  "poll_status t g w =
     (with_timeout t (g (polls w)),
      w\<lparr>polls := Suc (polls w), trace := trace w @ [Poll]\<rparr>)"

text \<open>
  A global name of a module resolves when the module binds it; otherwise reading it raises
  \<^verbatim>\<open>NameError\<close>.
\<close>

definition load_global :: "string list \<Rightarrow> string \<Rightarrow> exn + unit" where
  "load_global ns x = (if x \<in> set ns then Inr () else Inl (NameError x))"

section \<open>\<^verbatim>\<open>binary_sensor.py\<close>\<close>

text \<open>
  The names bound at module level of \<^verbatim>\<open>binary_sensor.py\<close>: its imports (lines 3 to 15),
  \<^verbatim>\<open>_LOGGER\<close>, \<^verbatim>\<open>PLATFORM_SCHEMA\<close>, and its functions and class. The name
  \<^verbatim>\<open>asyncio\<close> is not among them.
\<close>

definition binary_sensor_globals :: "string list" where
  "binary_sensor_globals =
     [''timedelta'', ''logging'', ''async_timeout'', ''vol'', ''cv'',
      ''PLATFORM_SCHEMA'', ''BinarySensorEntity'', ''Entity'', ''DataUpdateCoordinator'',
      ''CONF_HOST'', ''CONF_TOKEN'', ''DOMAIN'', ''_LOGGER'',
      ''async_update_data'', ''async_setup_entry'', ''SalusBinarySensor'']"

definition retries :: nat where
  "retries = 3"

text \<open>Lines 36 to 42: the loop over \<^verbatim>\<open>devices.values()\<close> that fills \<^verbatim>\<open>valid_devices\<close>.\<close>

fun collect_valid :: "device list \<Rightarrow> device list \<Rightarrow> world \<Rightarrow> device list \<times> world" where
  "collect_valid [] valid_devices w = (valid_devices, w)"
| "collect_valid (d # ds) valid_devices w =
     (let w1 = log Debug (DeviceData (unique_id d)) w
      in if available d
         then collect_valid ds (valid_devices @ [d]) w1
         else collect_valid ds valid_devices
                (log Warning (DeviceNotAvailable (unique_id d)) w1))"

text \<open>
  Lines 31 to 48, the body of the \<^verbatim>\<open>try\<close>: \<open>Inl e\<close> when the body raises \<open>e\<close>,
  \<open>Inr xs\<close> when it executes \<^verbatim>\<open>return xs\<close>.
\<close>

definition try_body :: "gateway \<Rightarrow> world \<Rightarrow> (exn + device list) \<times> world" where
  "try_body g w =
     (case poll_status 10 g w of
        (Raises e, w1) \<Rightarrow> (Inl e, w1)
      | (Replies devices, w1) \<Rightarrow>
          (let w2 = log Debug (DevicesFetched devices) w1;
               (valid_devices, w3) = collect_valid (map snd devices) [] w2
           in if valid_devices = []
              then (Inr [], log Error NoAvailableDevices w3)
              else (Inr valid_devices, w3)))"

text \<open>
  Lines 50 to 53, the two \<^verbatim>\<open>except\<close> clauses. Matching the first clause evaluates the
  expression \<^verbatim>\<open>asyncio.TimeoutError\<close>, which reads the global \<^verbatim>\<open>asyncio\<close> first; an
  exception raised there leaves the whole statement.
\<close>

definition except_clauses :: "string list \<Rightarrow> nat \<Rightarrow> exn \<Rightarrow> world \<Rightarrow> (exn + unit) \<times> world" where
  "except_clauses ns attempt e w =
     (case load_global ns ''asyncio'' of
        Inl err \<Rightarrow> (Inl err, w)
      | Inr _ \<Rightarrow>
          if e = TimeoutError
          then (Inr (), log Error (TimedOutOnAttempt (attempt + 1)) w)
          else (Inr (), log Error (ErrorOnAttempt (attempt + 1) e) w))"

text \<open>Lines 55 and 56: \<^verbatim>\<open>await asyncio.sleep(5)\<close> between attempts.\<close>

definition sleep_between :: "string list \<Rightarrow> nat \<Rightarrow> world \<Rightarrow> (exn + unit) \<times> world" where
  "sleep_between ns attempt w =
     (if attempt < retries - 1
      then (case load_global ns ''asyncio'' of
              Inl err \<Rightarrow> (Inl err, w)
            | Inr _ \<Rightarrow> (Inr (), w\<lparr>trace := trace w @ [Sleep 5]\<rparr>))
      else (Inr (), w))"

text \<open>
  Lines 29 to 59: \<^verbatim>\<open>for attempt in range(retries)\<close> and the fall-through after it, in a
  module whose global names are \<open>ns\<close>.
\<close>

function attempts_from :: "string list \<Rightarrow> gateway \<Rightarrow> nat \<Rightarrow> world \<Rightarrow> (exn + device list) \<times> world" where
  "attempts_from ns g attempt w =
     (if attempt < retries
      then (case try_body g w of
              (Inr result, w1) \<Rightarrow> (Inr result, w1)
            | (Inl e, w1) \<Rightarrow>
                (case except_clauses ns attempt e w1 of
                   (Inl err, w2) \<Rightarrow> (Inl err, w2)
                 | (Inr _, w2) \<Rightarrow>
                     (case sleep_between ns attempt w2 of
                        (Inl err, w3) \<Rightarrow> (Inl err, w3)
                      | (Inr _, w3) \<Rightarrow> attempts_from ns g (Suc attempt) w3)))
      else (Inr [], log Error MaxRetriesReached w))"
  by pat_completeness auto
termination
  by (relation "measure (\<lambda>(ns, g, attempt, w). retries - attempt)") auto

declare attempts_from.simps [simp del]

definition async_update_data :: "gateway \<Rightarrow> world \<Rightarrow> (exn + device list) \<times> world" where
  "async_update_data g w = attempts_from binary_sensor_globals g 0 w"

section \<open>\<^verbatim>\<open>climate.py\<close>\<close>

text \<open>
  Lines 33 to 43, the update function nested in \<^verbatim>\<open>async_setup_entry\<close>: one poll under a
  timeout of 30, the gateway's dict returned as it is; any exception is logged and raised
  again by the bare \<^verbatim>\<open>raise\<close>.
\<close>

definition climate_async_update_data :: "gateway \<Rightarrow> world \<Rightarrow> (exn + devices) \<times> world" where
  "climate_async_update_data g w =
     (case poll_status 30 g w of
        (Raises e, w1) \<Rightarrow> (Inl e, log Error (ErrorFetchingData e) w1)
      | (Replies devices, w1) \<Rightarrow> (Inr devices, log Debug (DevicesFetched devices) w1))"

text \<open>
  An instance of \<^verbatim>\<open>SalusThermostat\<close> is its attribute dict. Lines 67 to 71:
  \<^verbatim>\<open>__init__\<close> stores \<^verbatim>\<open>_coordinator\<close>, \<^verbatim>\<open>_idx\<close> and \<^verbatim>\<open>_gateway\<close>.
\<close>

type_synonym thermostat = "string \<rightharpoonup> pyval"

definition SalusThermostat_init :: "pyval \<Rightarrow> pyval \<Rightarrow> pyval \<Rightarrow> thermostat" where
  "SalusThermostat_init coordinator idx gateway =
     [''_coordinator'' \<mapsto> coordinator, ''_idx'' \<mapsto> idx, ''_gateway'' \<mapsto> gateway]"

text \<open>The methods and properties that the body of \<^verbatim>\<open>class SalusThermostat\<close> defines.\<close>

definition SalusThermostat_members :: "string list" where
  "SalusThermostat_members =
     [''__init__'', ''async_update'', ''async_added_to_hass'', ''supported_features'',
      ''available'', ''icon'', ''device_info'', ''unique_id'', ''should_poll'', ''name'',
      ''temperature_unit'', ''precision'', ''current_temperature'', ''current_humidity'',
      ''hvac_mode'', ''hvac_modes'', ''hvac_action'', ''target_temperature'', ''max_temp'',
      ''min_temp'', ''preset_mode'', ''preset_modes'', ''fan_mode'', ''fan_modes'', ''locked'',
      ''async_set_temperature'', ''async_set_fan_mode'', ''async_set_hvac_mode'',
      ''async_set_preset_mode'']"

text \<open>
  Reading \<^verbatim>\<open>self.name\<close>: the instance's own attributes, then what the class body
  defines, then what the base class \<^verbatim>\<open>ClimateEntity\<close> provides. The base class belongs
  to the framework and is a parameter \<open>base\<close>. A name found nowhere raises
  \<^verbatim>\<open>AttributeError\<close>.
\<close>

definition getattr :: "(string \<rightharpoonup> pyval) \<Rightarrow> thermostat \<Rightarrow> string \<Rightarrow> exn + pyval" where
  "getattr base self a =
     (case self a of
        Some v \<Rightarrow> Inr v
      | None \<Rightarrow>
          if a \<in> set SalusThermostat_members then Inr (PyObj a)
          else (case base a of
                  Some v \<Rightarrow> Inr v
                | None \<Rightarrow> Inl (AttributeError a)))"

text \<open>
  A call of a gateway method \<open>m\<close> with a device and a value contacts the gateway, which is
  recorded as a \<open>Command\<close> event; whether the gateway then raises is given by the
  parameter \<open>gw\<close>.
\<close>

definition gateway_call ::
  "(string \<Rightarrow> pyval \<Rightarrow> pyval \<Rightarrow> exn option) \<Rightarrow> string \<Rightarrow> pyval \<Rightarrow> pyval \<Rightarrow> world
    \<Rightarrow> (exn + unit) \<times> world" where
  "gateway_call gw m dev v w =
     (let w1 = w\<lparr>trace := trace w @ [Command m dev v]\<rparr>
      in case gw m dev v of Some e \<Rightarrow> (Inl e, w1) | None \<Rightarrow> (Inr (), w1))"

text \<open>
  The two statements every command method ends with:
  \<^verbatim>\<open>await self._gateway.m(self._device, v)\<close>, whose receiver is evaluated before its
  arguments and whose call happens after both, and then
  \<^verbatim>\<open>await self._coordinator.async_request_refresh()\<close>.
\<close>

definition send_command ::
  "(string \<rightharpoonup> pyval) \<Rightarrow> (string \<Rightarrow> pyval \<Rightarrow> pyval \<Rightarrow> exn option) \<Rightarrow> thermostat \<Rightarrow> string
    \<Rightarrow> pyval \<Rightarrow> world \<Rightarrow> (exn + unit) \<times> world" where
  "send_command base gw self m v w =
     (case getattr base self ''_gateway'' of
        Inl e \<Rightarrow> (Inl e, w)
      | Inr _ \<Rightarrow>
          (case getattr base self ''_device'' of
             Inl e \<Rightarrow> (Inl e, w)
           | Inr dev \<Rightarrow>
               (case gateway_call gw m dev v w of
                  (Inl e, w1) \<Rightarrow> (Inl e, w1)
                | (Inr _, w1) \<Rightarrow>
                    (case getattr base self ''_coordinator'' of
                       Inl e \<Rightarrow> (Inl e, w1)
                     | Inr _ \<Rightarrow> (Inr (), w1\<lparr>trace := trace w1 @ [RequestRefresh]\<rparr>)))))"

text \<open>The key \<^verbatim>\<open>ATTR_TEMPERATURE\<close> that \<^verbatim>\<open>climate.py\<close> imports from the framework.\<close>

definition ATTR_TEMPERATURE :: string where
  "ATTR_TEMPERATURE = ''temperature''"

text \<open>Lines 205 to 211; \<^verbatim>\<open>kwargs.get\<close> gives \<^verbatim>\<open>None\<close> for a missing key.\<close>

definition async_set_temperature ::
  "(string \<rightharpoonup> pyval) \<Rightarrow> (string \<Rightarrow> pyval \<Rightarrow> pyval \<Rightarrow> exn option) \<Rightarrow> thermostat
    \<Rightarrow> (string \<rightharpoonup> pyval) \<Rightarrow> world \<Rightarrow> (exn + unit) \<times> world" where
  "async_set_temperature base gw self kwargs w =
     (let temperature = (case kwargs ATTR_TEMPERATURE of None \<Rightarrow> PyNone | Some v \<Rightarrow> v)
      in if temperature = PyNone then (Inr (), w)
         else send_command base gw self ''set_climate_device_temperature'' temperature w)"

text \<open>Lines 213 to 226.\<close>

definition async_set_fan_mode ::
  "(string \<rightharpoonup> pyval) \<Rightarrow> (string \<Rightarrow> pyval \<Rightarrow> pyval \<Rightarrow> exn option) \<Rightarrow> thermostat
    \<Rightarrow> pyval \<Rightarrow> world \<Rightarrow> (exn + unit) \<times> world" where
  "async_set_fan_mode base gw self fan_mode w =
     send_command base gw self ''set_climate_device_fan_mode'' fan_mode w"

definition async_set_hvac_mode ::
  "(string \<rightharpoonup> pyval) \<Rightarrow> (string \<Rightarrow> pyval \<Rightarrow> pyval \<Rightarrow> exn option) \<Rightarrow> thermostat
    \<Rightarrow> pyval \<Rightarrow> world \<Rightarrow> (exn + unit) \<times> world" where
  "async_set_hvac_mode base gw self hvac_mode w =
     send_command base gw self ''set_climate_device_mode'' hvac_mode w"

definition async_set_preset_mode ::
  "(string \<rightharpoonup> pyval) \<Rightarrow> (string \<Rightarrow> pyval \<Rightarrow> pyval \<Rightarrow> exn option) \<Rightarrow> thermostat
    \<Rightarrow> pyval \<Rightarrow> world \<Rightarrow> (exn + unit) \<times> world" where
  "async_set_preset_mode base gw self preset_mode w =
     send_command base gw self ''set_climate_device_preset'' preset_mode w"

section \<open>The coordinator's store\<close>

text \<open>
  Modelled from the spec: the store of the polling coordinator. Both modules build a
  \<^verbatim>\<open>DataUpdateCoordinator\<close> of the framework around their update function and read its
  \<^verbatim>\<open>data\<close>; the class itself is not part of the two modules. After the spec, a cycle
  whose update function returns a value replaces the stored snapshot with it and is a
  success; a cycle whose update function raises leaves the previous snapshot untouched and
  is a failure. \<open>None\<close> is the state before any snapshot (\<^verbatim>\<open>coordinator.data is None\<close>,
  line 75 of \<^verbatim>\<open>binary_sensor.py\<close>).
\<close>

record 'a coordinator =
  data :: "'a option"
  last_update_success :: bool

definition async_refresh ::
  "(world \<Rightarrow> (exn + 'a) \<times> world) \<Rightarrow> 'a coordinator \<Rightarrow> world \<Rightarrow> 'a coordinator \<times> world" where
  "async_refresh update_method c w =
     (case update_method w of
        (Inr snapshot, w1) \<Rightarrow> (c\<lparr>data := Some snapshot, last_update_success := True\<rparr>, w1)
      | (Inl e, w1) \<Rightarrow> (c\<lparr>last_update_success := False\<rparr>, w1))"

section \<open>The refresh policy in the words of the specification\<close>

text \<open>
  The specification counts three kinds of failed attempt: a timeout, a transport error
  (the poll raises) and a response with zero available devices. Its policy gives up when
  the attempt count reaches the maximum of three, so a binary-sensor cycle that starts at
  the gateway's poll number \<open>n\<close> ends in give-up when the three polls from \<open>n\<close> on all fail.
\<close>

definition spec_attempt_fails :: "poll \<Rightarrow> bool" where
  "spec_attempt_fails p =
     (case with_timeout 10 p of
        Raises e \<Rightarrow> True
      | Replies devices \<Rightarrow> filter available (map snd devices) = [])"

definition spec_gives_up :: "gateway \<Rightarrow> nat \<Rightarrow> bool" where
  "spec_gives_up g n =
     (spec_attempt_fails (g n) \<and> spec_attempt_fails (g (n + 1)) \<and> spec_attempt_fails (g (n + 2)))"

text \<open>The events of one kind in a trace.\<close>

fun sleeps :: "event list \<Rightarrow> nat list" where
  "sleeps [] = []"
| "sleeps (Sleep n # es) = n # sleeps es"
| "sleeps (e # es) = sleeps es"

fun logged :: "event list \<Rightarrow> (level \<times> msg) list" where
  "logged [] = []"
| "logged (Log l m # es) = (l, m) # logged es"
| "logged (e # es) = logged es"

text \<open>The log records that lines 38 to 42 emit for one device.\<close>

fun device_events :: "device \<Rightarrow> event list" where
  "device_events d =
     Log Debug (DeviceData (unique_id d)) #
     (if available d then [] else [Log Warning (DeviceNotAvailable (unique_id d))])"

section \<open>Concrete gateways, devices and stores\<close>

definition w0 :: world where
  "w0 = \<lparr>polls = 0, trace = []\<rparr>"

definition door :: device where
  "door = \<lparr>unique_id = ''door'', available = True\<rparr>"

definition window :: device where
  "window = \<lparr>unique_id = ''window'', available = False\<rparr>"

text \<open>A gateway that answers at once and whose only device is unavailable.\<close>

definition unavailable_gateway :: gateway where
  "unavailable_gateway n = \<lparr>latency = 1, reply = Replies [(''window'', window)]\<rparr>"

text \<open>A gateway that answers at once with one available and one unavailable device.\<close>

definition mixed_gateway :: gateway where
  "mixed_gateway n = \<lparr>latency = 1, reply = Replies [(''door'', door), (''window'', window)]\<rparr>"

text \<open>A gateway that needs 60 time units for every poll: it always times out.\<close>

definition hanging_gateway :: gateway where
  "hanging_gateway n = \<lparr>latency = 60, reply = Replies [(''door'', door)]\<rparr>"

text \<open>A gateway that needs 20 time units for every poll.\<close>

definition slow_gateway :: gateway where
  "slow_gateway n = \<lparr>latency = 20, reply = Replies [(''door'', door)]\<rparr>"

text \<open>Gateways that need exactly 10 and exactly 30 time units for every poll.\<close>

definition ten_gateway :: gateway where
  "ten_gateway n = \<lparr>latency = 10, reply = Replies [(''door'', door)]\<rparr>"

definition thirty_gateway :: gateway where
  "thirty_gateway n = \<lparr>latency = 30, reply = Replies [(''door'', door)]\<rparr>"

text \<open>A gateway whose every poll raises.\<close>

definition refusing_gateway :: gateway where
  "refusing_gateway n = \<lparr>latency = 1, reply = Raises (GatewayError ''connection refused'')\<rparr>"

text \<open>A gateway whose first two polls raise and whose later polls succeed.\<close>

definition flaky_gateway :: gateway where
  "flaky_gateway n =
     (if n < 2 then \<lparr>latency = 1, reply = Raises (GatewayError ''connection refused'')\<rparr>
      else \<lparr>latency = 1, reply = Replies [(''door'', door)]\<rparr>)"

text \<open>Coordinators that already hold a snapshot from an earlier cycle.\<close>

definition c0 :: "device list coordinator" where
  "c0 = \<lparr>data = Some [door], last_update_success = True\<rparr>"

definition c1 :: "devices coordinator" where
  "c1 = \<lparr>data = Some [(''door'', door)], last_update_success = True\<rparr>"

text \<open>A thermostat as \<^verbatim>\<open>async_setup_entry\<close> builds it, and a gateway that accepts every command.\<close>

definition hall :: thermostat where
  "hall = SalusThermostat_init (PyObj ''coordinator'') (PyStr ''hall'') (PyObj ''gateway'')"

definition accepting :: "string \<Rightarrow> pyval \<Rightarrow> pyval \<Rightarrow> exn option" where
  "accepting m dev v = None"

lemmas examples =
  w0_def door_def window_def unavailable_gateway_def mixed_gateway_def hanging_gateway_def
  slow_gateway_def ten_gateway_def thirty_gateway_def refusing_gateway_def flaky_gateway_def
  c0_def c1_def

section \<open>What one attempt of the binary-sensor update does\<close>

lemma asyncio_unbound:
  "load_global binary_sensor_globals ''asyncio'' = Inl (NameError ''asyncio'')"
  by (simp add: load_global_def binary_sensor_globals_def)

lemma collect_valid_eq:
  "collect_valid ds acc w =
     (acc @ filter available ds, w\<lparr>trace := trace w @ concat (map device_events ds)\<rparr>)"
  by (induction ds arbitrary: acc w) (simp_all add: Let_def log_def)

lemma try_body_raises:
  "with_timeout 10 (g (polls w)) = Raises e \<Longrightarrow>
   try_body g w = (Inl e, w\<lparr>polls := Suc (polls w), trace := trace w @ [Poll]\<rparr>)"
  by (simp add: try_body_def poll_status_def)

lemma try_body_replies:
  "with_timeout 10 (g (polls w)) = Replies ds \<Longrightarrow>
   try_body g w =
     (Inr (filter available (map snd ds)),
      w\<lparr>polls := Suc (polls w),
        trace := trace w @ [Poll, Log Debug (DevicesFetched ds)]
                 @ concat (map device_events (map snd ds))
                 @ (if filter available (map snd ds) = [] then [Log Error NoAvailableDevices]
                    else [])\<rparr>)"
  by (simp add: try_body_def poll_status_def collect_valid_eq log_def Let_def)

text \<open>
  In the module as it is written the loop never reaches a second round: the first round
  either returns or leaves through the failing lookup of \<^verbatim>\<open>asyncio\<close>.
\<close>

lemma async_update_data_first:
  "async_update_data g w =
     (case try_body g w of
        (Inr r, w1) \<Rightarrow> (Inr r, w1)
      | (Inl e, w1) \<Rightarrow> (Inl (NameError ''asyncio''), w1))"
  unfolding async_update_data_def
  by (subst attempts_from.simps)
     (simp add: retries_def except_clauses_def asyncio_unbound split: prod.splits sum.splits)

lemma async_update_data_raises:
  "with_timeout 10 (g (polls w)) = Raises e \<Longrightarrow>
   async_update_data g w =
     (Inl (NameError ''asyncio''), w\<lparr>polls := Suc (polls w), trace := trace w @ [Poll]\<rparr>)"
  by (simp add: async_update_data_first try_body_raises)

lemma async_update_data_replies:
  "with_timeout 10 (g (polls w)) = Replies ds \<Longrightarrow>
   async_update_data g w =
     (Inr (filter available (map snd ds)),
      w\<lparr>polls := Suc (polls w),
        trace := trace w @ [Poll, Log Debug (DevicesFetched ds)]
                 @ concat (map device_events (map snd ds))
                 @ (if filter available (map snd ds) = [] then [Log Error NoAvailableDevices]
                    else [])\<rparr>)"
  by (simp add: async_update_data_first try_body_replies)

lemma sleeps_append: "sleeps (xs @ ys) = sleeps xs @ sleeps ys"
  by (induction xs rule: sleeps.induct) simp_all

lemma sleeps_device_events: "sleeps (concat (map device_events ds)) = []"
  by (induction ds) simp_all

lemma logged_append: "logged (xs @ ys) = logged xs @ logged ys"
  by (induction xs rule: logged.induct) simp_all

lemma warning_logged:
  "d \<in> set ds \<Longrightarrow> \<not> available d \<Longrightarrow>
   (Warning, DeviceNotAvailable (unique_id d)) \<in> set (logged (concat (map device_events ds)))"
  by (induction ds) (auto simp: logged_append)

text \<open>
  What the loop of lines 29 to 59 does in a module that also binds \<^verbatim>\<open>asyncio\<close>: it
  retries after a sleep of 5, and after three failed attempts it returns the empty list.
\<close>

lemma retry_when_asyncio_is_bound:
  "attempts_from (''asyncio'' # binary_sensor_globals) flaky_gateway 0 w0 =
     (Inr [door],
      \<lparr>polls = 3,
       trace = [Poll, Log Error (ErrorOnAttempt 1 (GatewayError ''connection refused'')), Sleep 5,
                Poll, Log Error (ErrorOnAttempt 2 (GatewayError ''connection refused'')), Sleep 5,
                Poll, Log Debug (DevicesFetched [(''door'', door)]),
                Log Debug (DeviceData ''door'')]\<rparr>)"
  by (simp add: attempts_from.simps retries_def try_body_def poll_status_def with_timeout_def
      except_clauses_def sleep_between_def load_global_def log_def Let_def examples)

lemma give_up_when_asyncio_is_bound:
  "attempts_from (''asyncio'' # binary_sensor_globals) refusing_gateway 0 w0 =
     (Inr [],
      \<lparr>polls = 3,
       trace = [Poll, Log Error (ErrorOnAttempt 1 (GatewayError ''connection refused'')), Sleep 5,
                Poll, Log Error (ErrorOnAttempt 2 (GatewayError ''connection refused'')), Sleep 5,
                Poll, Log Error (ErrorOnAttempt 3 (GatewayError ''connection refused'')),
                Log Error MaxRetriesReached]\<rparr>)"
  by (simp add: attempts_from.simps retries_def try_body_def poll_status_def with_timeout_def
      except_clauses_def sleep_between_def load_global_def log_def Let_def examples)

section \<open>What the climate update does\<close>

lemma climate_raises:
  "with_timeout 30 (g (polls w)) = Raises e \<Longrightarrow>
   climate_async_update_data g w =
     (Inl e, w\<lparr>polls := Suc (polls w),
               trace := trace w @ [Poll, Log Error (ErrorFetchingData e)]\<rparr>)"
  by (simp add: climate_async_update_data_def poll_status_def log_def)

lemma climate_replies:
  "with_timeout 30 (g (polls w)) = Replies ds \<Longrightarrow>
   climate_async_update_data g w =
     (Inr ds, w\<lparr>polls := Suc (polls w),
                trace := trace w @ [Poll, Log Debug (DevicesFetched ds)]\<rparr>)"
  by (simp add: climate_async_update_data_def poll_status_def log_def)

lemma getattr_gateway:
  "getattr base (SalusThermostat_init c i gwy) ''_gateway'' = Inr gwy"
  by (simp add: getattr_def SalusThermostat_init_def)

lemma getattr_device:
  "base ''_device'' = None \<Longrightarrow>
   getattr base (SalusThermostat_init c i gwy) ''_device'' = Inl (AttributeError ''_device'')"
  by (simp add: getattr_def SalusThermostat_init_def SalusThermostat_members_def)

lemma send_command_no_device:
  "base ''_device'' = None \<Longrightarrow>
   send_command base gw (SalusThermostat_init c i gwy) m v w =
     (Inl (AttributeError ''_device''), w)"
  by (simp add: send_command_def getattr_gateway getattr_device)

section \<open>The binary-sensor refresh cycle\<close>

text \<open>
  Claim C7. In \<^verbatim>\<open>async_update_data\<close> of \<^verbatim>\<open>binary_sensor.py\<close>, whenever the first
  attempt raises an exception, whatever it is, the function leaves with
  \<^verbatim>\<open>NameError\<close> for the name \<^verbatim>\<open>asyncio\<close>, after that one poll and without a log record
  or a sleep. The function returns a value exactly when the first attempt raises nothing.
  In every case it polls the gateway once and never sleeps, so the second and third
  attempts are out of reach.
\<close>

theorem first_failure_is_name_error:
  "(with_timeout 10 (g (polls w)) = Raises e \<longrightarrow>
      async_update_data g w =
        (Inl (NameError ''asyncio''),
         w\<lparr>polls := Suc (polls w), trace := trace w @ [Poll]\<rparr>))
   \<and> ((\<exists>r w'. async_update_data g w = (Inr r, w')) \<longleftrightarrow>
        (\<exists>ds. with_timeout 10 (g (polls w)) = Replies ds))
   \<and> polls (snd (async_update_data g w)) = Suc (polls w)
   \<and> sleeps (trace (snd (async_update_data g w))) = sleeps (trace w)"
proof (cases "with_timeout 10 (g (polls w))")
  case (Raises e')
  then show ?thesis
    by (simp add: async_update_data_raises sleeps_append)
next
  case (Replies ds)
  then show ?thesis
    by (simp add: async_update_data_replies sleeps_append sleeps_device_events del: map_map)
qed

theorem first_failure_is_name_error_witness:
  "with_timeout 10 (refusing_gateway (polls w0)) = Raises (GatewayError ''connection refused'')
   \<and> async_update_data refusing_gateway w0 =
       (Inl (NameError ''asyncio''), \<lparr>polls = 1, trace = [Poll]\<rparr>)
   \<and> with_timeout 10 (mixed_gateway (polls w0)) = Replies [(''door'', door), (''window'', window)]
   \<and> (\<exists>r w'. async_update_data mixed_gateway w0 = (Inr r, w'))"
  using first_failure_is_name_error [of refusing_gateway w0 "GatewayError ''connection refused''"]
    first_failure_is_name_error [of mixed_gateway w0]
  by (simp add: with_timeout_def examples)

text \<open>
  Claim C2, at the gateway that fails twice and then succeeds. The claim asks for three
  polls, two sleeps of 5 and a successful result. The module polls once and leaves with
  \<^verbatim>\<open>NameError\<close>, with no sleep at all.
\<close>

theorem flaky_gateway_raises_name_error:
  "async_update_data flaky_gateway w0 =
     (Inl (NameError ''asyncio''), \<lparr>polls = 1, trace = [Poll]\<rparr>)"
  by (simp add: async_update_data_raises [where e = "GatewayError ''connection refused''"]
      with_timeout_def examples)

text \<open>
  Claim C1 as stated fails. A gateway whose only device is unavailable fails every
  attempt in the specification's sense, so the cycle ends in give-up there; yet the
  coordinator that held the snapshot \<open>[door]\<close> holds the empty list afterwards, and the
  cycle counts as a success.
\<close>

theorem no_device_cycle_replaces_snapshot:
  "spec_gives_up unavailable_gateway (polls w0)
   \<and> data c0 = Some [door]
   \<and> data (fst (async_refresh (async_update_data unavailable_gateway) c0 w0)) = Some []
   \<and> last_update_success (fst (async_refresh (async_update_data unavailable_gateway) c0 w0))"
  by (simp add: spec_gives_up_def spec_attempt_fails_def async_refresh_def
      async_update_data_replies [where ds = "[(''window'', window)]"] with_timeout_def examples)

text \<open>
  Claim C1, amended. A binary-sensor refresh cycle whose gateway answers within the
  timeout with no available device does not keep the previous snapshot: the update
  function returns the empty list, the coordinator stores it as the new snapshot, and the
  cycle is a success.
\<close>

theorem empty_result_is_stored:
  assumes "with_timeout 10 (g (polls w)) = Replies ds"
    and "filter available (map snd ds) = []"
  shows "data (fst (async_refresh (async_update_data g) c w)) = Some []
         \<and> last_update_success (fst (async_refresh (async_update_data g) c w))"
  using assms by (simp add: async_refresh_def async_update_data_replies)

theorem empty_result_is_stored_witness:
  "with_timeout 10 (unavailable_gateway (polls w0)) = Replies [(''window'', window)]
   \<and> filter available (map snd [(''window'', window)]) = []
   \<and> data (fst (async_refresh (async_update_data unavailable_gateway) c0 w0)) = Some []
   \<and> last_update_success (fst (async_refresh (async_update_data unavailable_gateway) c0 w0))"
proof -
  have h1: "with_timeout 10 (unavailable_gateway (polls w0)) = Replies [(''window'', window)]"
    by (simp add: with_timeout_def examples)
  have h2: "filter available (map snd [(''window'', window)]) = []"
    by (simp add: examples)
  from empty_result_is_stored [where g = unavailable_gateway and w = w0 and c = c0, OF h1 h2]
    h1 h2
  show ?thesis by simp
qed

text \<open>
  Claim C3 as stated fails. For a response with zero available devices the update
  function returns the empty list after one poll: a normal return, not a failure, and no
  retry attempt is used.
\<close>

theorem no_device_cycle_returns_empty:
  "filter available (map snd [(''window'', window)]) = []
   \<and> with_timeout 10 (unavailable_gateway (polls w0)) = Replies [(''window'', window)]
   \<and> async_update_data unavailable_gateway w0 =
       (Inr [],
        \<lparr>polls = 1,
         trace = [Poll, Log Debug (DevicesFetched [(''window'', window)]),
                  Log Debug (DeviceData ''window''),
                  Log Warning (DeviceNotAvailable ''window''),
                  Log Error NoAvailableDevices]\<rparr>)"
  by (simp add: async_update_data_replies [where ds = "[(''window'', window)]"]
      with_timeout_def examples)

text \<open>
  Claim C3, amended. For every binary-sensor refresh cycle whose gateway response yields
  zero available devices, the update function logs an error and returns the empty list
  at once: after that single poll, with no sleep and no further attempt.
\<close>

theorem no_devices_returns_empty_at_once:
  assumes "with_timeout 10 (g (polls w)) = Replies ds"
    and "filter available (map snd ds) = []"
  shows "fst (async_update_data g w) = Inr []
         \<and> polls (snd (async_update_data g w)) = Suc (polls w)
         \<and> sleeps (trace (snd (async_update_data g w))) = sleeps (trace w)
         \<and> last (trace (snd (async_update_data g w))) = Log Error NoAvailableDevices"
  using assms
  by (simp add: async_update_data_replies sleeps_append sleeps_device_events del: map_map)

theorem no_devices_returns_empty_at_once_witness:
  "with_timeout 10 (unavailable_gateway (polls w0)) = Replies [(''window'', window)]
   \<and> filter available (map snd [(''window'', window)]) = []
   \<and> fst (async_update_data unavailable_gateway w0) = Inr []
   \<and> polls (snd (async_update_data unavailable_gateway w0)) = 1
   \<and> sleeps (trace (snd (async_update_data unavailable_gateway w0))) = []
   \<and> last (trace (snd (async_update_data unavailable_gateway w0))) = Log Error NoAvailableDevices"
proof -
  have h1: "with_timeout 10 (unavailable_gateway (polls w0)) = Replies [(''window'', window)]"
    by (simp add: with_timeout_def examples)
  have h2: "filter available (map snd [(''window'', window)]) = []"
    by (simp add: examples)
  have h3: "polls w0 = 0" "trace w0 = []"
    by (simp_all add: w0_def)
  from no_devices_returns_empty_at_once [where g = unavailable_gateway and w = w0, OF h1 h2]
    h1 h2 h3
  show ?thesis by simp
qed

text \<open>
  Claim C5 as stated fails for the climate category. Its update function returns the
  gateway's dict as it is: the unavailable device \<open>window\<close> is part of the snapshot, and
  no log record mentions it.
\<close>

theorem climate_keeps_unavailable:
  "climate_async_update_data mixed_gateway w0 =
     (Inr [(''door'', door), (''window'', window)],
      \<lparr>polls = 1,
       trace = [Poll, Log Debug (DevicesFetched [(''door'', door), (''window'', window)])]\<rparr>)
   \<and> \<not> available window"
  by (simp add: climate_replies [where ds = "[(''door'', door), (''window'', window)]"]
      with_timeout_def examples)

text \<open>
  Claim C5, amended. Whenever the binary-sensor update function returns, the returned
  list is exactly the devices that the gateway's response marks available, in the order
  of the response; each unavailable device of the response is left out and logged with a
  warning. Whenever the climate update function returns, the returned snapshot is the
  gateway's device dict as it is, unavailable devices included, and all the function has
  done is one poll and one debug record of the whole dict: it logs no warning and no
  record of its own for an unavailable device.
\<close>

theorem snapshot_contents:
  "(async_update_data g w = (Inr r, w') \<longrightarrow>
      (\<exists>ds. with_timeout 10 (g (polls w)) = Replies ds
         \<and> r = filter available (map snd ds)
         \<and> (\<forall>d \<in> set (map snd ds). \<not> available d \<longrightarrow>
              d \<notin> set r
              \<and> (Warning, DeviceNotAvailable (unique_id d)) \<in> set (logged (trace w')))))
   \<and> (climate_async_update_data g w = (Inr r', w'') \<longrightarrow>
        with_timeout 30 (g (polls w)) = Replies r'
        \<and> w'' = w\<lparr>polls := Suc (polls w),
                   trace := trace w @ [Poll, Log Debug (DevicesFetched r')]\<rparr>)"
proof (intro conjI impI)
  assume a: "async_update_data g w = (Inr r, w')"
  show "\<exists>ds. with_timeout 10 (g (polls w)) = Replies ds
         \<and> r = filter available (map snd ds)
         \<and> (\<forall>d \<in> set (map snd ds). \<not> available d \<longrightarrow>
              d \<notin> set r
              \<and> (Warning, DeviceNotAvailable (unique_id d)) \<in> set (logged (trace w')))"
  proof (cases "with_timeout 10 (g (polls w))")
    case (Raises e)
    with a show ?thesis by (simp add: async_update_data_raises)
  next
    case (Replies ds)
    from a async_update_data_replies [where g = g and w = w, OF Replies]
    have r: "r = filter available (map snd ds)"
      and w': "trace w' = trace w @ [Poll, Log Debug (DevicesFetched ds)]
                 @ concat (map device_events (map snd ds))
                 @ (if filter available (map snd ds) = [] then [Log Error NoAvailableDevices]
                    else [])"
      by auto
    have "\<forall>d \<in> set (map snd ds). \<not> available d \<longrightarrow>
              d \<notin> set r
              \<and> (Warning, DeviceNotAvailable (unique_id d)) \<in> set (logged (trace w'))"
    proof (intro ballI impI conjI)
      fix d assume d: "d \<in> set (map snd ds)" "\<not> available d"
      then show "d \<notin> set r" by (simp add: r)
      from warning_logged [OF d]
      show "(Warning, DeviceNotAvailable (unique_id d)) \<in> set (logged (trace w'))"
        by (simp add: w' logged_append del: map_map)
    qed
    with Replies r show ?thesis by blast
  qed
next
  assume a: "climate_async_update_data g w = (Inr r', w'')"
  show "with_timeout 30 (g (polls w)) = Replies r'"
  proof (cases "with_timeout 30 (g (polls w))")
    case (Raises e)
    with a show ?thesis by (simp add: climate_raises)
  next
    case (Replies ds)
    with a show ?thesis by (simp add: climate_replies)
  qed
next
  assume a: "climate_async_update_data g w = (Inr r', w'')"
  show "w'' = w\<lparr>polls := Suc (polls w),
                 trace := trace w @ [Poll, Log Debug (DevicesFetched r')]\<rparr>"
  proof (cases "with_timeout 30 (g (polls w))")
    case (Raises e)
    with a show ?thesis by (simp add: climate_raises)
  next
    case (Replies ds)
    with a show ?thesis by (auto simp: climate_replies)
  qed
qed

theorem snapshot_contents_witness:
  "async_update_data mixed_gateway w0 =
     (Inr [door],
      \<lparr>polls = 1,
       trace = [Poll, Log Debug (DevicesFetched [(''door'', door), (''window'', window)]),
                Log Debug (DeviceData ''door''), Log Debug (DeviceData ''window''),
                Log Warning (DeviceNotAvailable ''window'')]\<rparr>)
   \<and> with_timeout 10 (mixed_gateway (polls w0)) = Replies [(''door'', door), (''window'', window)]
   \<and> window \<in> set (map snd [(''door'', door), (''window'', window)])
   \<and> \<not> available window
   \<and> window \<notin> set [door]
   \<and> (Warning, DeviceNotAvailable (unique_id window)) \<in>
       set (logged [Poll, Log Debug (DevicesFetched [(''door'', door), (''window'', window)]),
                Log Debug (DeviceData ''door''), Log Debug (DeviceData ''window''),
                Log Warning (DeviceNotAvailable ''window'')])
   \<and> climate_async_update_data mixed_gateway w0 =
       (Inr [(''door'', door), (''window'', window)],
        \<lparr>polls = 1,
         trace = [Poll, Log Debug (DevicesFetched [(''door'', door), (''window'', window)])]\<rparr>)
   \<and> with_timeout 30 (mixed_gateway (polls w0)) = Replies [(''door'', door), (''window'', window)]
   \<and> \<lparr>polls = 1,
       trace = [Poll, Log Debug (DevicesFetched [(''door'', door), (''window'', window)])]\<rparr>
       = w0\<lparr>polls := Suc (polls w0),
            trace := trace w0
                     @ [Poll, Log Debug (DevicesFetched [(''door'', door), (''window'', window)])]\<rparr>"
proof -
  let ?ds = "[(''door'', door), (''window'', window)]"
  let ?tr = "[Poll, Log Debug (DevicesFetched ?ds),
              Log Debug (DeviceData ''door''), Log Debug (DeviceData ''window''),
              Log Warning (DeviceNotAvailable ''window'')]"
  have t: "with_timeout 10 (mixed_gateway (polls w0)) = Replies ?ds"
    by (simp add: with_timeout_def examples)
  have h: "async_update_data mixed_gateway w0 = (Inr [door], \<lparr>polls = 1, trace = ?tr\<rparr>)"
    by (simp add: async_update_data_replies [where ds = ?ds] with_timeout_def examples)
  have k: "climate_async_update_data mixed_gateway w0 =
             (Inr ?ds, \<lparr>polls = 1, trace = [Poll, Log Debug (DevicesFetched ?ds)]\<rparr>)"
    by (simp add: climate_replies [where ds = ?ds] with_timeout_def examples)
  have m: "window \<in> set (map snd ?ds)" and n: "\<not> available window"
    by (simp_all add: examples)
  note inst = snapshot_contents [where g = mixed_gateway and w = w0 and r = "[door]"
      and w' = "\<lparr>polls = 1, trace = ?tr\<rparr>" and r' = ?ds
      and w'' = "\<lparr>polls = 1, trace = [Poll, Log Debug (DevicesFetched ?ds)]\<rparr>"]
  from inst h obtain ds where ds: "with_timeout 10 (mixed_gateway (polls w0)) = Replies ds"
    and all: "\<forall>d \<in> set (map snd ds). \<not> available d \<longrightarrow>
                d \<notin> set [door]
                \<and> (Warning, DeviceNotAvailable (unique_id d)) \<in> set (logged ?tr)"
    by auto
  from ds t have "ds = ?ds" by simp
  with all m n have c: "window \<notin> set [door]
      \<and> (Warning, DeviceNotAvailable (unique_id window)) \<in> set (logged ?tr)"
    by blast
  from inst k have "with_timeout 30 (mixed_gateway (polls w0)) = Replies ?ds
      \<and> \<lparr>polls = 1, trace = [Poll, Log Debug (DevicesFetched ?ds)]\<rparr>
          = w0\<lparr>polls := Suc (polls w0),
               trace := trace w0 @ [Poll, Log Debug (DevicesFetched ?ds)]\<rparr>"
    by blast
  with h t m n c k show ?thesis by blast
qed

section \<open>The climate refresh cycle\<close>




text \<open>
  Claim C6 as stated fails for the climate category. An exception of the gateway leaves
  the climate update function again: it is not absorbed there.
\<close>

theorem climate_error_propagates:
  "climate_async_update_data refusing_gateway w0 =
     (Inl (GatewayError ''connection refused''),
      \<lparr>polls = 1,
       trace = [Poll, Log Error (ErrorFetchingData (GatewayError ''connection refused''))]\<rparr>)"
  by (simp add: climate_raises [where e = "GatewayError ''connection refused''"]
      with_timeout_def examples)

text \<open>
  Claim C6, amended. In the climate category every error that arises during the attempt,
  a timeout or an exception of the gateway, is logged at error level by the update
  function and then raised again to its caller. The coordinator that called it keeps the
  prior snapshot and records a failed update.
\<close>

theorem climate_logs_and_reraises:
  assumes "with_timeout 30 (g (polls w)) = Raises e"
  shows "climate_async_update_data g w =
           (Inl e, w\<lparr>polls := Suc (polls w),
                     trace := trace w @ [Poll, Log Error (ErrorFetchingData e)]\<rparr>)
         \<and> fst (async_refresh (climate_async_update_data g) c w) =
             c\<lparr>last_update_success := False\<rparr>"
  using assms by (simp add: climate_raises async_refresh_def)

theorem climate_logs_and_reraises_witness:
  "with_timeout 30 (refusing_gateway (polls w0)) = Raises (GatewayError ''connection refused'')
   \<and> climate_async_update_data refusing_gateway w0 =
       (Inl (GatewayError ''connection refused''),
        \<lparr>polls = 1,
         trace = [Poll, Log Error (ErrorFetchingData (GatewayError ''connection refused''))]\<rparr>)
   \<and> fst (async_refresh (climate_async_update_data refusing_gateway) c1 w0) =
       \<lparr>data = Some [(''door'', door)], last_update_success = False\<rparr>"
proof -
  have h: "with_timeout 30 (refusing_gateway (polls w0))
           = Raises (GatewayError ''connection refused'')"
    by (simp add: with_timeout_def examples)
  from climate_logs_and_reraises [where g = refusing_gateway and w = w0 and c = c1, OF h] h
  show ?thesis by (simp add: w0_def c1_def)
qed

section \<open>Timeouts of the two categories\<close>

text \<open>
  Claim C8. The poll of the binary-sensor update runs under a timeout of exactly 10 time
  units and the poll of the climate update under one of exactly 30: for a gateway that
  would answer, the binary-sensor attempt ends in a timeout error exactly when the gateway
  needs 10 units or more and returns exactly when it needs fewer, and the climate attempt
  ends in a timeout error exactly when the gateway needs 30 units or more and returns
  exactly when it needs fewer.
\<close>

theorem attempt_timeouts:
  assumes "reply (g (polls w)) = Replies ds"
  shows "(fst (try_body g w) = Inl TimeoutError \<longleftrightarrow> 10 \<le> latency (g (polls w)))
       \<and> (fst (async_update_data g w) = Inr (filter available (map snd ds))
            \<longleftrightarrow> latency (g (polls w)) < 10)
       \<and> (fst (climate_async_update_data g w) = Inl TimeoutError
            \<longleftrightarrow> 30 \<le> latency (g (polls w)))
       \<and> (fst (climate_async_update_data g w) = Inr ds \<longleftrightarrow> latency (g (polls w)) < 30)"
proof -
  have b: "with_timeout 10 (g (polls w)) =
             (if 10 \<le> latency (g (polls w)) then Raises TimeoutError else Replies ds)"
    and c: "with_timeout 30 (g (polls w)) =
             (if 30 \<le> latency (g (polls w)) then Raises TimeoutError else Replies ds)"
    using assms by (simp_all add: with_timeout_def)
  show ?thesis
  proof (intro conjI)
    show "fst (try_body g w) = Inl TimeoutError \<longleftrightarrow> 10 \<le> latency (g (polls w))"
      using b by (cases "10 \<le> latency (g (polls w))") (simp_all add: try_body_raises try_body_replies)
    show "fst (async_update_data g w) = Inr (filter available (map snd ds))
            \<longleftrightarrow> latency (g (polls w)) < 10"
      using b by (cases "10 \<le> latency (g (polls w))")
        (simp_all add: async_update_data_raises async_update_data_replies)
    show "fst (climate_async_update_data g w) = Inl TimeoutError
            \<longleftrightarrow> 30 \<le> latency (g (polls w))"
      using c by (cases "30 \<le> latency (g (polls w))") (simp_all add: climate_raises climate_replies)
    show "fst (climate_async_update_data g w) = Inr ds \<longleftrightarrow> latency (g (polls w)) < 30"
      using c by (cases "30 \<le> latency (g (polls w))") (simp_all add: climate_raises climate_replies)
  qed
qed

theorem attempt_timeouts_witness:
  "reply (slow_gateway (polls w0)) = Replies [(''door'', door)]
   \<and> latency (slow_gateway (polls w0)) = 20
   \<and> fst (try_body slow_gateway w0) = Inl TimeoutError
   \<and> fst (async_update_data slow_gateway w0) \<noteq> Inr (filter available (map snd [(''door'', door)]))
   \<and> fst (climate_async_update_data slow_gateway w0) \<noteq> Inl TimeoutError
   \<and> fst (climate_async_update_data slow_gateway w0) = Inr [(''door'', door)]
   \<and> reply (ten_gateway (polls w0)) = Replies [(''door'', door)]
   \<and> latency (ten_gateway (polls w0)) = 10
   \<and> fst (try_body ten_gateway w0) = Inl TimeoutError
   \<and> fst (climate_async_update_data ten_gateway w0) = Inr [(''door'', door)]
   \<and> reply (thirty_gateway (polls w0)) = Replies [(''door'', door)]
   \<and> latency (thirty_gateway (polls w0)) = 30
   \<and> fst (climate_async_update_data thirty_gateway w0) = Inl TimeoutError"
proof -
  have h: "reply (slow_gateway (polls w0)) = Replies [(''door'', door)]"
    and l: "latency (slow_gateway (polls w0)) = 20"
    by (simp_all add: slow_gateway_def)
  have h10: "reply (ten_gateway (polls w0)) = Replies [(''door'', door)]"
    and l10: "latency (ten_gateway (polls w0)) = 10"
    by (simp_all add: ten_gateway_def)
  have h30: "reply (thirty_gateway (polls w0)) = Replies [(''door'', door)]"
    and l30: "latency (thirty_gateway (polls w0)) = 30"
    by (simp_all add: thirty_gateway_def)
  from attempt_timeouts [where g = slow_gateway and w = w0, OF h]
    attempt_timeouts [where g = ten_gateway and w = w0, OF h10]
    attempt_timeouts [where g = thirty_gateway and w = w0, OF h30]
    h l h10 l10 h30 l30
  show ?thesis by simp
qed

section \<open>Commands of the thermostat\<close>

text \<open>
  Claim C9. The constructor stores \<^verbatim>\<open>_coordinator\<close>, \<^verbatim>\<open>_idx\<close> and \<^verbatim>\<open>_gateway\<close> only.
  When the base class provides no attribute \<^verbatim>\<open>_device\<close> either, every command that
  reaches its gateway call, \<^verbatim>\<open>async_set_temperature\<close> with a temperature other than
  \<^verbatim>\<open>None\<close>, \<^verbatim>\<open>async_set_fan_mode\<close>, \<^verbatim>\<open>async_set_hvac_mode\<close> and
  \<^verbatim>\<open>async_set_preset_mode\<close>, raises \<^verbatim>\<open>AttributeError\<close> for \<^verbatim>\<open>_device\<close> before the
  gateway is contacted: the world is unchanged, whatever the gateway would have done.
\<close>

theorem commands_raise_attribute_error:
  assumes "base ''_device'' = None"
  shows "dom (SalusThermostat_init c i gwy) = {''_coordinator'', ''_idx'', ''_gateway''}
       \<and> (kwargs ATTR_TEMPERATURE = Some t \<and> t \<noteq> PyNone \<longrightarrow>
            async_set_temperature base gw (SalusThermostat_init c i gwy) kwargs w =
              (Inl (AttributeError ''_device''), w))
       \<and> async_set_fan_mode base gw (SalusThermostat_init c i gwy) v w =
           (Inl (AttributeError ''_device''), w)
       \<and> async_set_hvac_mode base gw (SalusThermostat_init c i gwy) v w =
           (Inl (AttributeError ''_device''), w)
       \<and> async_set_preset_mode base gw (SalusThermostat_init c i gwy) v w =
           (Inl (AttributeError ''_device''), w)"
proof -
  have "dom (SalusThermostat_init c i gwy) = {''_coordinator'', ''_idx'', ''_gateway''}"
    by (auto simp: SalusThermostat_init_def)
  with assms show ?thesis
    by (simp add: async_set_temperature_def async_set_fan_mode_def async_set_hvac_mode_def
        async_set_preset_mode_def send_command_no_device)
qed

theorem commands_raise_attribute_error_witness:
  "Map.empty ''_device'' = (None :: pyval option)
   \<and> [ATTR_TEMPERATURE \<mapsto> PyNum 21] ATTR_TEMPERATURE = Some (PyNum 21) \<and> PyNum 21 \<noteq> PyNone
   \<and> async_set_temperature Map.empty accepting hall [ATTR_TEMPERATURE \<mapsto> PyNum 21] w0 =
       (Inl (AttributeError ''_device''), w0)
   \<and> async_set_fan_mode Map.empty accepting hall (PyStr ''auto'') w0 =
       (Inl (AttributeError ''_device''), w0)
   \<and> async_set_hvac_mode Map.empty accepting hall (PyStr ''auto'') w0 =
       (Inl (AttributeError ''_device''), w0)
   \<and> async_set_preset_mode Map.empty accepting hall (PyStr ''auto'') w0 =
       (Inl (AttributeError ''_device''), w0)"
  using commands_raise_attribute_error [where base = Map.empty
      and kwargs = "[ATTR_TEMPERATURE \<mapsto> PyNum 21]"
      and t = "PyNum 21" and gw = accepting and c = "PyObj ''coordinator''"
      and i = "PyStr ''hall''" and gwy = "PyObj ''gateway''" and w = w0 and v = "PyStr ''auto''"]
  by (simp add: hall_def)

text \<open>
  Claim C10. When the keyword arguments of \<^verbatim>\<open>async_set_temperature\<close> lack
  \<^verbatim>\<open>ATTR_TEMPERATURE\<close> or bind it to \<^verbatim>\<open>None\<close>, the method returns at once and the world is
  unchanged: no gateway call is made and no refresh is requested.
\<close>

theorem set_temperature_without_value:
  assumes "kwargs ATTR_TEMPERATURE = None \<or> kwargs ATTR_TEMPERATURE = Some PyNone"
  shows "async_set_temperature base gw self kwargs w = (Inr (), w)"
  using assms by (auto simp: async_set_temperature_def)

theorem set_temperature_without_value_witness:
  "(Map.empty ATTR_TEMPERATURE = (None :: pyval option)
    \<or> Map.empty ATTR_TEMPERATURE = Some PyNone)
   \<and> async_set_temperature Map.empty accepting hall Map.empty w0 = (Inr (), w0)
   \<and> ([ATTR_TEMPERATURE \<mapsto> PyNone] ATTR_TEMPERATURE = None
      \<or> [ATTR_TEMPERATURE \<mapsto> PyNone] ATTR_TEMPERATURE = Some PyNone)
   \<and> async_set_temperature Map.empty accepting hall [ATTR_TEMPERATURE \<mapsto> PyNone] w0 = (Inr (), w0)"
  using set_temperature_without_value [where kwargs = Map.empty and base = Map.empty
      and gw = accepting and self = hall and w = w0]
    set_temperature_without_value [where kwargs = "[ATTR_TEMPERATURE \<mapsto> PyNone]"
      and base = Map.empty and gw = accepting and self = hall and w = w0]
  by simp

end
